theory Spec2Isabelle
  imports Complex_Main "HOL-Library.Sublist"
begin

section \<open>JavaScript primitives used by \<open>services/analysisService.ts\<close>\<close>

text \<open>
  Strings are lists of code units (\<open>string\<close>); an error value is represented by what the
  code reads from it. Numbers that hold pixel sizes, status codes, attempt numbers and
  milliseconds are natural numbers; the one division of the file is carried out over the
  reals and rounded with \<open>Math_round\<close>, as \<open>Math.round\<close> does (round half up). For
  natural numbers \<open>a\<close> and \<open>b\<close> with \<open>a + b < 2 ^ 52\<close> the double nearest to \<open>a / b\<close>
  lies on the same side of every half-integer as \<open>a / b\<close> itself, so that rounding the
  real quotient gives what the code computes on the sizes of images.
\<close>

definition Math_round :: "real \<Rightarrow> int" where
  "Math_round x = \<lfloor>x + 1 / 2\<rfloor>"

text \<open>\<open>s.lastIndexOf(c)\<close>: the greatest index holding \<open>c\<close>, or \<open>-1\<close>.\<close>

fun lastIndexOf :: "string \<Rightarrow> char \<Rightarrow> int" where
  "lastIndexOf [] c = - 1"
| "lastIndexOf (x # xs) c =
     (let r = lastIndexOf xs c
      in if 0 \<le> r then r + 1 else if x = c then 0 else - 1)"

text \<open>
  \<open>s.substring(start, end)\<close>: both arguments are clamped to \<open>[0, length]\<close> and swapped
  when \<open>start > end\<close>.
\<close>

definition substring :: "string \<Rightarrow> int \<Rightarrow> int \<Rightarrow> string" where
  "substring s start end' =
     (let n = int (length s);
          a = max 0 (min start n);
          b = max 0 (min end' n);
          lo = min a b;
          hi = max a b
      in take (nat (hi - lo)) (drop (nat lo) s))"

text \<open>A natural number inside a template literal: its decimal digits.\<close>

fun toString :: "nat \<Rightarrow> string" where
  "toString n =
     (if n < 10 then [char_of (48 + n)]
      else toString (n div 10) @ [char_of (48 + n mod 10)])"

declare toString.simps [simp del]

text \<open>\<open>a || b\<close> on strings: the empty string is falsy.\<close>

definition orElse :: "string \<Rightarrow> string \<Rightarrow> string" where
  "orElse a b = (if a = [] then b else a)"

datatype language = English | Hindi | Bengali

fun languageName :: "language \<Rightarrow> string" where
  "languageName English = ''English''"
| "languageName Hindi = ''Hindi''"
| "languageName Bengali = ''Bengali''"

text \<open>
  What a promise is rejected with: the error event of the file reader, the error event of
  the image element, or an \<open>Error\<close> with its message.
\<close>

datatype rejection = ReaderErrorEvent | ImageErrorEvent | Error string

section \<open>Files, blobs and the values of parsed JSON\<close>

text \<open>
  A blob is kept symbolic: either bytes the caller supplied, or the encoding of a canvas
  bitmap, which has the pixel size of the canvas it was taken from.
\<close>

datatype blob =
    Bytes string
  | CanvasEncoding (pixelWidth: nat) (pixelHeight: nat) (mediaType: string) (encQuality: real) (drawn: string)

record js_file =
  name :: string
  ftype :: string
  lastModified :: nat
  content :: blob

datatype json =
    JNull
  | JBool bool
  | JNumber real
  | JString string
  | JArray "json list"
  | JObject "(string \<times> json) list"

text \<open>
  \<open>v?.text\<close>: only an object can have an own property \<open>text\<close>; \<open>null\<close> short-circuits to
  \<open>undefined\<close>, and numbers, booleans, strings and arrays have no such property.
\<close>

fun textProperty :: "json \<Rightarrow> json option" where
  "textProperty (JObject kvs) = map_of kvs ''text''"
| "textProperty _ = None"

section \<open>The platform\<close>

record response =
  status :: nat
  statusText :: string
  bodyText :: "string + string"

text \<open>\<open>response.ok\<close>: the status is in the range 200 to 299.\<close>

definition ok :: "response \<Rightarrow> bool" where
  "ok r = (200 \<le> status r \<and> status r \<le> 299)"

datatype fetch_result = FetchRejected string | Response response

record request =
  url :: string
  httpMethod :: string
  image :: js_file
  imageFileName :: string
  languageField :: string

record generate_request =
  model :: string
  contents :: string

text \<open>
  Everything the file calls and does not define is a field of the platform:
  \<^item> \<open>readAsDataURL\<close>: the data URL read from a file, \<open>None\<close> when \<open>reader.onerror\<close> fires;
  \<^item> \<open>loadImage\<close>: the natural width and height of the decoded image, \<open>None\<close> when
    \<open>img.onerror\<close> fires;
  \<^item> \<open>hasContext2d\<close>: whether \<open>canvas.getContext('2d')\<close> is not null;
  \<^item> \<open>toBlobWorks\<close>: whether \<open>canvas.toBlob\<close> hands a blob (not null) to its callback, for
    a canvas of the given width and height;
  \<^item> \<open>now\<close>: \<open>Date.now()\<close>;
  \<^item> \<open>fetch\<close>: the outcome of the \<open>n\<close>-th call of \<open>fetch\<close> (counted from 1) for a request;
    \<open>bodyText\<close> of a response is what \<open>response.text()\<close> gives, \<open>Inl\<close> the message
    when reading the body fails;
  \<^item> \<open>JSON_parse\<close>: \<open>None\<close> when \<open>JSON.parse\<close> throws;
  \<^item> \<open>JSON_stringify\<close>: \<open>JSON.stringify(v, null, 2)\<close>;
  \<^item> \<open>newGoogleGenAI\<close>: the message of the error the constructor throws, if it does;
  \<^item> \<open>generateContent\<close>: \<open>Inl\<close> the message when the call is rejected, otherwise the
    \<open>text\<close> of the response (\<open>None\<close> for \<open>undefined\<close>).
\<close>

record platform =
  readAsDataURL :: "js_file \<Rightarrow> string option"
  loadImage :: "string \<Rightarrow> (nat \<times> nat) option"
  hasContext2d :: bool
  toBlobWorks :: "nat \<Rightarrow> nat \<Rightarrow> bool"
  now :: nat
  fetch :: "nat \<Rightarrow> request \<Rightarrow> fetch_result"
  JSON_parse :: "string \<Rightarrow> json option"
  JSON_stringify :: "json \<Rightarrow> string"
  newGoogleGenAI :: "string option"
  generateContent :: "generate_request \<Rightarrow> string + string option"

section \<open>compressImage\<close>

text \<open>Lines 19 to 31: the size of the canvas for an image of the given natural size.\<close>

definition canvasSize :: "nat \<Rightarrow> nat \<Rightarrow> nat \<Rightarrow> nat \<times> nat" where
  "canvasSize width height maxWidth =
     (if width > height then
        (if width > maxWidth
         then (maxWidth, nat (Math_round (real (height * maxWidth) / real width)))
         else (width, height))
      else
        (if height > maxWidth
         then (nat (Math_round (real (width * maxWidth) / real height)), maxWidth)
         else (width, height)))"

text \<open>Line 47: the name of the compressed file.\<close>

definition fileName :: "string \<Rightarrow> string" where
  "fileName nm = substring nm 0 (lastIndexOf nm CHR ''.'') @ ''.jpg''"

definition compressImage :: "platform \<Rightarrow> js_file \<Rightarrow> nat \<Rightarrow> real \<Rightarrow> rejection + js_file" where
  "compressImage p file maxWidth quality =
     (case readAsDataURL p file of
        None \<Rightarrow> Inl ReaderErrorEvent
      | Some src \<Rightarrow>
          (case loadImage p src of
             None \<Rightarrow> Inl ImageErrorEvent
           | Some (w, h) \<Rightarrow>
               (let (width, height) = canvasSize w h maxWidth
                in if \<not> hasContext2d p then Inl (Error ''Could not get canvas context'')
                   else if \<not> toBlobWorks p width height
                   then Inl (Error ''Canvas to Blob conversion failed'')
                   else Inr \<lparr>name = fileName (name file),
                             ftype = ''image/jpeg'',
                             lastModified = now p,
                             content = CanvasEncoding width height ''image/jpeg'' quality src\<rparr>)))"

text \<open>The size in pixels of what a file holds, when it is the encoding of a canvas.\<close>

fun pixelSize :: "js_file \<Rightarrow> (nat \<times> nat) option" where
  "pixelSize f =
     (case content f of
        Bytes _ \<Rightarrow> None
      | CanvasEncoding w h _ _ _ \<Rightarrow> Some (w, h))"

section \<open>analyzeImage\<close>

definition MAX_RETRIES :: nat where
  "MAX_RETRIES = 3"

definition INITIAL_DELAY_MS :: nat where
  "INITIAL_DELAY_MS = 1000"

definition webhookUrl :: string where
  "webhookUrl = ''https://belva-subarid-desiree.ngrok-free.dev/webhook-test/4dc9e45d-c64e-4a07-80b6-e320f34df0a7''"

text \<open>
  What the function does to the outside, in order: a call of \<open>fetch\<close> with its request, or
  a call of \<open>sleep\<close> with its milliseconds. Console output is not recorded.
\<close>

datatype event = Fetch request | Sleep nat

text \<open>Lines 77 to 79 and 88 to 91: the request every attempt sends.\<close>

definition formRequest :: "js_file \<Rightarrow> language \<Rightarrow> request" where
  "formRequest compressedFile lang =
     \<lparr>url = webhookUrl,
      httpMethod = ''POST'',
      image = compressedFile,
      imageFileName = name compressedFile,
      languageField = languageName lang\<rparr>"

text \<open>
  Lines 113 to 127, the inner \<open>try\<close>: what a successful response with a non-empty body
  is turned into. Both the \<open>try\<close> and its \<open>catch\<close> return.
\<close>

definition readReport :: "platform \<Rightarrow> string \<Rightarrow> string" where
  "readReport p responseText =
     (case JSON_parse p responseText of
        None \<Rightarrow> responseText
      | Some webhookResponse \<Rightarrow>
          (case textProperty webhookResponse of
             Some (JString analysisText) \<Rightarrow> analysisText
           | _ \<Rightarrow>
               ''Could not find analysis text in the response. The service returned:''
               @ [CHR 0x0A, CHR 0x0A] @ JSON_stringify p webhookResponse))"

text \<open>
  Lines 84 to 127, the body of the outer \<open>try\<close> in attempt number \<open>attempt\<close>: \<open>Inr\<close> is
  the value of a \<open>return\<close>, \<open>Inl\<close> the message of what is thrown inside the \<open>try\<close>
  and so reaches the \<open>catch\<close> of line 128.
\<close>

definition tryAttempt :: "platform \<Rightarrow> request \<Rightarrow> nat \<Rightarrow> string + string" where
  "tryAttempt p req attempt =
     (case fetch p attempt req of
        FetchRejected message \<Rightarrow> Inl message
      | Response r \<Rightarrow>
          if status r \<ge> 400 \<and> status r < 500 then
            (case bodyText r of
               Inl message \<Rightarrow> Inl message
             | Inr errorText \<Rightarrow>
                 Inl (''Analysis service rejected the request: '' @ toString (status r) @ '' ''
                      @ statusText r @ '' - '' @ orElse errorText ''(no error body)''))
          else if \<not> ok r then
            (case bodyText r of
               Inl message \<Rightarrow> Inl message
             | Inr errorText \<Rightarrow>
                 Inl (''Webhook request failed: '' @ toString (status r) @ '' ''
                      @ statusText r @ '' - '' @ orElse errorText ''(no error body)''))
          else
            (case bodyText r of
               Inl message \<Rightarrow> Inl message
             | Inr responseText \<Rightarrow>
                 if responseText = []
                 then Inl ''The analysis service returned a successful but empty response.''
                 else Inr (readReport p responseText)))"

text \<open>Line 141: the message of the error thrown after the loop.\<close>

definition exhaustedMessage :: "string option \<Rightarrow> string" where
  "exhaustedMessage lastError =
     ''Failed to get a response from the analysis service after '' @ toString MAX_RETRIES
     @ '' attempts. The service may be temporarily unavailable. Last error: ''
     @ orElse (case lastError of None \<Rightarrow> [] | Some message \<Rightarrow> message) ''Unknown error''"

text \<open>
  Lines 83 to 141: the loop from attempt number \<open>attempt\<close> on, with the last error seen
  and the events so far. The \<open>catch\<close> of line 128 handles everything thrown in the
  \<open>try\<close>; it sleeps when another attempt follows.
\<close>

function analyzeImage_loop ::
  "platform \<Rightarrow> request \<Rightarrow> nat \<Rightarrow> string option \<Rightarrow> event list \<Rightarrow> (rejection + string) \<times> event list"
where
  "analyzeImage_loop p req attempt lastError trace =
     (if attempt \<le> MAX_RETRIES then
        (case tryAttempt p req attempt of
           Inr result \<Rightarrow> (Inr result, trace @ [Fetch req])
         | Inl message \<Rightarrow>
             analyzeImage_loop p req (attempt + 1) (Some message)
               (trace @ [Fetch req]
                @ (if attempt < MAX_RETRIES
                   then [Sleep (INITIAL_DELAY_MS * 2 ^ (attempt - 1))]
                   else [])))
      else (Inl (Error (exhaustedMessage lastError)), trace))"
  by pat_completeness auto
termination
  by (relation "measure (\<lambda>(p, req, attempt, lastError, trace). MAX_RETRIES + 1 - attempt)") auto

declare analyzeImage_loop.simps [simp del]

text \<open>
  The whole function: a rejection of \<open>compressImage\<close> is not caught, so it is the result
  and nothing is sent.
\<close>

definition analyzeImage :: "platform \<Rightarrow> js_file \<Rightarrow> language \<Rightarrow> (rejection + string) \<times> event list" where
  "analyzeImage p imageFile lang =
     (case compressImage p imageFile 1024 (7 / 10) of
        Inl rejected \<Rightarrow> (Inl rejected, [])
      | Inr compressedFile \<Rightarrow>
          analyzeImage_loop p (formRequest compressedFile lang) 1 None [])"

section \<open>translateText\<close>

definition translationPrompt :: "string \<Rightarrow> language \<Rightarrow> string" where
  "translationPrompt text targetLanguage =
     ''Translate the following text to '' @ languageName targetLanguage
     @ ''. Do not translate technical terms, botanical names, or proper nouns unless it is natural to do so in ''
     @ languageName targetLanguage
     @ ''. Maintain the original markdown formatting (like **bold** text):''
     @ [CHR 0x0A, CHR 0x0A] @ ''---'' @ [CHR 0x0A, CHR 0x0A] @ text"

text \<open>
  Lines 156 to 166, the body of the \<open>try\<close>: \<open>Inr\<close> the value returned, \<open>Inl\<close> the message of
  what is thrown; with the requests sent to the service.
\<close>

definition tryTranslate ::
  "platform \<Rightarrow> string \<Rightarrow> language \<Rightarrow> (string + string) \<times> generate_request list" where
  "tryTranslate p text targetLanguage =
     (case newGoogleGenAI p of
        Some message \<Rightarrow> (Inl message, [])
      | None \<Rightarrow>
          (let rq = \<lparr>model = ''gemini-3-flash-preview'',
                     contents = translationPrompt text targetLanguage\<rparr>
           in case generateContent p rq of
                Inl message \<Rightarrow> (Inl message, [rq])
              | Inr None \<Rightarrow> (Inl ''Translation service returned an empty response.'', [rq])
              | Inr (Some translatedText) \<Rightarrow>
                  if translatedText = []
                  then (Inl ''Translation service returned an empty response.'', [rq])
                  else (Inr translatedText, [rq])))"

text \<open>
  The whole function: the result (\<open>Inl\<close> would be a rejection reaching the caller) and
  the requests sent to the translation service.
\<close>

definition translateText ::
  "platform \<Rightarrow> string \<Rightarrow> language \<Rightarrow> (rejection + string) \<times> generate_request list" where
  "translateText p text targetLanguage =
     (if text = [] then (Inr [], [])
      else
        (case tryTranslate p text targetLanguage of
           (Inr translatedText, calls) \<Rightarrow> (Inr translatedText, calls)
         | (Inl message, calls) \<Rightarrow> (Inr text, calls)))"

section \<open>Reading JSON\<close>

text \<open>
  A reader for the JSON grammar (ECMA-404) over strings of 8-bit characters: the text is
  cut into tokens, and a value is read from the tokens. It stands for \<open>JSON.parse\<close> in
  the examples; the functions above take \<open>JSON.parse\<close> from the platform. An escape
  with four hexadecimal digits is read when it denotes a character below 256.
\<close>

definition isWhitespace :: "char \<Rightarrow> bool" where
  "isWhitespace c = (c = CHR '' '' \<or> c = CHR 0x09 \<or> c = CHR 0x0A \<or> c = CHR 0x0D)"

definition skipWhitespace :: "string \<Rightarrow> string" where
  "skipWhitespace s = dropWhile isWhitespace s"

definition isDigit :: "char \<Rightarrow> bool" where
  "isDigit c = (48 \<le> (of_char c :: nat) \<and> (of_char c :: nat) \<le> 57)"

definition digitsValue :: "string \<Rightarrow> nat" where
  "digitsValue ds = foldl (\<lambda>acc c. 10 * acc + (of_char c - 48)) 0 ds"

definition hexValue :: "char \<Rightarrow> nat option" where
  "hexValue c =
     (let n = (of_char c :: nat)
      in if 48 \<le> n \<and> n \<le> 57 then Some (n - 48)
         else if 65 \<le> n \<and> n \<le> 70 then Some (n - 55)
         else if 97 \<le> n \<and> n \<le> 102 then Some (n - 87)
         else None)"

fun hexNumber :: "nat \<Rightarrow> string \<Rightarrow> nat option" where
  "hexNumber acc [] = Some acc"
| "hexNumber acc (h # hs) =
     (case hexValue h of None \<Rightarrow> None | Some d \<Rightarrow> hexNumber (16 * acc + d) hs)"

datatype charKind = Quote | Escape | Control | Plain

definition charKind :: "char \<Rightarrow> charKind" where
  "charKind c =
     (if c = CHR 0x22 then Quote
      else if c = CHR 0x5C then Escape
      else if (of_char c :: nat) < 32 then Control
      else Plain)"

definition unescape :: "char \<Rightarrow> char option" where
  "unescape e =
     (if e = CHR 0x22 then Some (CHR 0x22)
      else if e = CHR 0x5C then Some (CHR 0x5C)
      else if e = CHR ''/'' then Some (CHR ''/'')
      else if e = CHR ''b'' then Some (CHR 0x08)
      else if e = CHR ''f'' then Some (CHR 0x0C)
      else if e = CHR ''n'' then Some (CHR 0x0A)
      else if e = CHR ''r'' then Some (CHR 0x0D)
      else if e = CHR ''t'' then Some (CHR 0x09)
      else None)"

text \<open>One character of a string literal, or one escape: what it denotes and what follows it.\<close>

definition stringItem :: "string \<Rightarrow> (char \<times> string) option" where
  "stringItem s =
     (case charKind (hd s) of
        Plain \<Rightarrow> Some (hd s, tl s)
      | Escape \<Rightarrow>
          (if tl s = [] then None
           else if hd (tl s) = CHR ''u'' then
             (if length s < 6 then None
              else
                (case hexNumber 0 (take 4 (drop 2 s)) of
                   None \<Rightarrow> None
                 | Some n \<Rightarrow> if n < 256 then Some (char_of n, drop 6 s) else None))
           else map_option (\<lambda>x. (x, drop 2 s)) (unescape (hd (tl s))))
      | _ \<Rightarrow> None)"

fun parseChars :: "nat \<Rightarrow> string \<Rightarrow> (string \<times> string) option" where
  "parseChars 0 s = None"
| "parseChars (Suc n) s =
     (if s = [] then None
      else if charKind (hd s) = Quote then Some ([], tl s)
      else
        (case stringItem s of
           None \<Rightarrow> None
         | Some (c, rest) \<Rightarrow> map_option (apfst ((#) c)) (parseChars n rest)))"

definition parseNumber :: "string \<Rightarrow> (real \<times> string) option" where
  "parseNumber s =
     (let (negative, s1) = (case s of c # cs \<Rightarrow> if c = CHR ''-'' then (True, cs) else (False, s) | [] \<Rightarrow> (False, s));
          intDigits = takeWhile isDigit s1;
          s2 = dropWhile isDigit s1
      in if intDigits = [] \<or> (1 < length intDigits \<and> hd intDigits = CHR ''0'') then None
         else
           (let (fracOk, fracDigits, s3) =
                  (case s2 of
                     c # cs \<Rightarrow>
                       if c = CHR ''.''
                       then (takeWhile isDigit cs \<noteq> [], takeWhile isDigit cs, dropWhile isDigit cs)
                       else (True, [], s2)
                   | [] \<Rightarrow> (True, [], s2));
                (expOk, expNegative, expDigits, s4) =
                  (case s3 of
                     c # cs \<Rightarrow>
                       if c = CHR ''e'' \<or> c = CHR ''E'' then
                         (let (neg, cs') =
                                (case cs of
                                   d # ds \<Rightarrow>
                                     if d = CHR ''-'' then (True, ds)
                                     else if d = CHR ''+'' then (False, ds)
                                     else (False, cs)
                                 | [] \<Rightarrow> (False, cs))
                          in (takeWhile isDigit cs' \<noteq> [], neg, takeWhile isDigit cs', dropWhile isDigit cs'))
                       else (True, False, [], s3)
                   | [] \<Rightarrow> (True, False, [], s3));
                mantissa = real (digitsValue (intDigits @ fracDigits)) / 10 ^ length fracDigits;
                scaled = (if expNegative then mantissa / 10 ^ digitsValue expDigits
                          else mantissa * 10 ^ digitsValue expDigits)
            in if fracOk \<and> expOk then Some (if negative then - scaled else scaled, s4) else None))"



text \<open>Defining a property of an object: a later duplicate of a name replaces the value.\<close>

fun defineProperty :: "string \<Rightarrow> json \<Rightarrow> (string \<times> json) list \<Rightarrow> (string \<times> json) list" where
  "defineProperty k v [] = [(k, v)]"
| "defineProperty k v ((k', v') # kvs) =
     (if k = k' then (k, v) # kvs else (k', v') # defineProperty k v kvs)"

datatype token =
  LBrace | RBrace | LBracket | RBracket | Colon | Comma
  | TString string | TNumber real | TTrue | TFalse | TNull

datatype lexed = EndOfInput | Invalid | Token token string

definition nextToken :: "string \<Rightarrow> lexed" where
  "nextToken s =
     (case skipWhitespace s of
        [] \<Rightarrow> EndOfInput
      | c # cs \<Rightarrow>
          if c = CHR ''{'' then Token LBrace cs
          else if c = CHR ''}'' then Token RBrace cs
          else if c = CHR ''['' then Token LBracket cs
          else if c = CHR '']'' then Token RBracket cs
          else if c = CHR '':'' then Token Colon cs
          else if c = CHR '','' then Token Comma cs
          else if c = CHR 0x22 then
            (case parseChars (length cs) cs of None \<Rightarrow> Invalid | Some (str, rest) \<Rightarrow> Token (TString str) rest)
          else if take 4 (c # cs) = ''true'' then Token TTrue (drop 4 (c # cs))
          else if take 5 (c # cs) = ''false'' then Token TFalse (drop 5 (c # cs))
          else if take 4 (c # cs) = ''null'' then Token TNull (drop 4 (c # cs))
          else
            (case parseNumber (c # cs) of None \<Rightarrow> Invalid | Some (x, rest) \<Rightarrow> Token (TNumber x) rest))"

fun tokenize :: "nat \<Rightarrow> string \<Rightarrow> token list option" where
  "tokenize 0 s = None"
| "tokenize (Suc n) s =
     (case nextToken s of
        EndOfInput \<Rightarrow> Some []
      | Invalid \<Rightarrow> None
      | Token t rest \<Rightarrow> map_option ((#) t) (tokenize n rest))"

definition startsWith :: "token \<Rightarrow> token list \<Rightarrow> bool" where
  "startsWith t ts = (ts \<noteq> [] \<and> hd ts = t)"

definition stringToken :: "token list \<Rightarrow> string option" where
  "stringToken ts = (case ts of TString k # _ \<Rightarrow> Some k | _ \<Rightarrow> None)"

definition scalar :: "token list \<Rightarrow> json option" where
  "scalar ts =
     (case ts of
        TString s # _ \<Rightarrow> Some (JString s)
      | TNumber x # _ \<Rightarrow> Some (JNumber x)
      | TTrue # _ \<Rightarrow> Some (JBool True)
      | TFalse # _ \<Rightarrow> Some (JBool False)
      | TNull # _ \<Rightarrow> Some JNull
      | _ \<Rightarrow> None)"

fun parseValue :: "nat \<Rightarrow> token list \<Rightarrow> (json \<times> token list) option"
  and parseElements :: "nat \<Rightarrow> json list \<Rightarrow> token list \<Rightarrow> (json list \<times> token list) option"
  and parseMembers ::
    "nat \<Rightarrow> (string \<times> json) list \<Rightarrow> token list \<Rightarrow> ((string \<times> json) list \<times> token list) option"
where
  "parseValue 0 ts = None"
| "parseValue (Suc n) ts =
     (if startsWith LBrace ts then
        (if startsWith RBrace (tl ts) then Some (JObject [], tl (tl ts))
         else map_option (apfst JObject) (parseMembers n [] (tl ts)))
      else if startsWith LBracket ts then
        (if startsWith RBracket (tl ts) then Some (JArray [], tl (tl ts))
         else map_option (apfst JArray) (parseElements n [] (tl ts)))
      else map_option (\<lambda>v. (v, tl ts)) (scalar ts))"
| "parseElements 0 acc ts = None"
| "parseElements (Suc n) acc ts =
     (case parseValue n ts of
        None \<Rightarrow> None
      | Some (v, rest) \<Rightarrow>
          if startsWith Comma rest then parseElements n (acc @ [v]) (tl rest)
          else if startsWith RBracket rest then Some (acc @ [v], tl rest)
          else None)"
| "parseMembers 0 acc ts = None"
| "parseMembers (Suc n) acc ts =
     (case stringToken ts of
        None \<Rightarrow> None
      | Some k \<Rightarrow>
          if \<not> startsWith Colon (tl ts) then None
          else
            (case parseValue n (tl (tl ts)) of
               None \<Rightarrow> None
             | Some (v, rest) \<Rightarrow>
                 if startsWith Comma rest then parseMembers n (defineProperty k v acc) (tl rest)
                 else if startsWith RBrace rest then Some (defineProperty k v acc, tl rest)
                 else None))"

definition parseJSON :: "string \<Rightarrow> json option" where
  "parseJSON s =
     (case tokenize (Suc (length s)) s of
        None \<Rightarrow> None
      | Some ts \<Rightarrow>
          (case parseValue (Suc (length ts)) ts of
             None \<Rightarrow> None
           | Some (v, rest) \<Rightarrow> if rest = [] then Some v else None))"

section \<open>A scripted platform for the examples\<close>

text \<open>
  The examples run the functions on a platform whose answers are fixed in advance, the
  way a test replaces \<open>fetch\<close> by a script: the image decodes to a given size, the
  \<open>n\<close>-th call of \<open>fetch\<close> gets the \<open>n\<close>-th scripted outcome, \<open>JSON.parse\<close> is
  \<open>parseJSON\<close> above, and \<open>JSON.stringify\<close> and the translation service answer with
  what the example hands in.
\<close>

definition examplePhoto :: js_file where
  "examplePhoto =
     \<lparr>name = ''leaf.photo.png'', ftype = ''image/png'', lastModified = 0,
      content = Bytes ''PNG''\<rparr>"

definition scripted ::
  "nat \<times> nat \<Rightarrow> (nat \<Rightarrow> fetch_result) \<Rightarrow> (json \<Rightarrow> string) \<Rightarrow> string option
     \<Rightarrow> (string + string option) \<Rightarrow> platform" where
  "scripted dims script stringify ctorError completion =
     \<lparr>readAsDataURL = (\<lambda>f. Some ''data:image/png;base64,UE5H''),
      loadImage = (\<lambda>src. Some dims),
      hasContext2d = True,
      toBlobWorks = (\<lambda>w h. True),
      now = 1700000000000,
      fetch = (\<lambda>n rq. script n),
      JSON_parse = parseJSON,
      JSON_stringify = stringify,
      newGoogleGenAI = ctorError,
      generateContent = (\<lambda>rq. completion)\<rparr>"

text \<open>The file and the request of every example that reaches the network.\<close>

definition exampleCompressed :: "nat \<Rightarrow> nat \<Rightarrow> js_file" where
  "exampleCompressed w h =
     \<lparr>name = ''leaf.photo.jpg'', ftype = ''image/jpeg'', lastModified = 1700000000000,
      content = CanvasEncoding w h ''image/jpeg'' (7 / 10) ''data:image/png;base64,UE5H''\<rparr>"

definition exampleRequest :: request where
  "exampleRequest = formRequest (exampleCompressed 800 600) English"

definition httpResponse :: "nat \<Rightarrow> string \<Rightarrow> string \<Rightarrow> fetch_result" where
  "httpResponse code reason body =
     Response \<lparr>status = code, statusText = reason, bodyText = Inr body\<rparr>"

text \<open>The schedule of section 4.2 of the specification, for a run of \<open>n\<close> attempts:
  before attempt \<open>k + 1\<close> a delay of \<open>INITIAL_DELAY_MS * 2 ^ (k - 1)\<close>, none after the last.\<close>

definition backoffSchedule :: "request \<Rightarrow> nat \<Rightarrow> event list" where
  "backoffSchedule rq n =
     concat (map (\<lambda>k. [Fetch rq, Sleep (INITIAL_DELAY_MS * 2 ^ (k - 1))]) [1..<n]) @ [Fetch rq]"

text \<open>The bodies and scripts of the examples.\<close>

definition okBody :: string where
  \<open>okBody = ''{"text":"ok"}''\<close>

definition doneBody :: string where
  \<open>doneBody = ''{"status":"done"}''\<close>

definition doneText :: string where
  \<open>doneText = ''{'' @ [CHR 0x0A] @ ''  "status": "done"'' @ [CHR 0x0A] @ ''}''\<close>

definition rejecting :: "nat \<Rightarrow> fetch_result" where
  "rejecting n = httpResponse 404 ''Not Found'' ''no such webhook''"

definition failing :: "nat \<Rightarrow> fetch_result" where
  "failing n = httpResponse 500 ''Internal Server Error'' ''overloaded''"

definition recovering :: "nat \<Rightarrow> fetch_result" where
  "recovering n = (if n < 3 then failing n else httpResponse 200 ''OK'' okBody)"

definition emptyThenPlain :: "nat \<Rightarrow> fetch_result" where
  "emptyThenPlain n =
     (if n < 2 then httpResponse 200 ''OK'' [] else httpResponse 200 ''OK'' ''plain text report'')"

definition emptyForever :: "nat \<Rightarrow> fetch_result" where
  "emptyForever n = (if n < 3 then failing n else httpResponse 204 ''No Content'' [])"

definition undescribed :: "nat \<Rightarrow> fetch_result" where
  "undescribed n = httpResponse 200 ''OK'' doneBody"

definition network :: "(nat \<Rightarrow> fetch_result) \<Rightarrow> platform" where
  "network script = scripted (800, 600) script (\<lambda>v. doneText) None (Inr None)"


text \<open>The events of the attempts \<open>a\<close> to \<open>k - 1\<close> when each of them fails and is followed
  by its delay.\<close>

definition delays :: "request \<Rightarrow> nat \<Rightarrow> nat \<Rightarrow> event list" where
  "delays rq a k = concat (map (\<lambda>j. [Fetch rq, Sleep (INITIAL_DELAY_MS * 2 ^ (j - 1))]) [a..<k])"

section \<open>Auxiliary facts\<close>

subsection \<open>Rounding, file names\<close>

lemma canvasSize_small: "max w h \<le> m \<Longrightarrow> canvasSize w h m = (w, h)"
  by (auto simp: canvasSize_def)

lemma compressImage_success:
  assumes "compressImage p file m q = Inr out"
  shows "\<exists>src w h. readAsDataURL p file = Some src \<and> loadImage p src = Some (w, h)
           \<and> name out = fileName (name file)
           \<and> content out = CanvasEncoding (fst (canvasSize w h m)) (snd (canvasSize w h m)) ''image/jpeg'' q src"
  using assms
  by (auto simp: compressImage_def split: option.splits prod.splits if_splits)

lemma Math_round_near: "\<bar>real_of_int (Math_round x) - x\<bar> \<le> 1 / 2"
  unfolding Math_round_def by linarith

lemma Math_round_nonneg: "0 \<le> x \<Longrightarrow> 0 \<le> Math_round x"
  unfolding Math_round_def by simp

lemma Math_round_scaled_le:
  assumes "a \<le> b" "0 < b"
  shows "nat (Math_round (real (a * m) / real b)) \<le> m"
proof -
  have "a * m \<le> m * b"
    using assms by (simp add: mult.commute)
  then have "real (a * m) \<le> real (m * b)"
    by (simp only: of_nat_le_iff)
  then have "real (a * m) / real b \<le> real m"
    using assms by (simp add: divide_le_eq)
  then have "Math_round (real (a * m) / real b) \<le> \<lfloor>real m + 1 / 2\<rfloor>"
    unfolding Math_round_def by (intro floor_mono) simp
  also have "\<lfloor>real m + 1 / 2\<rfloor> = int m"
    by linarith
  finally show ?thesis by simp
qed

lemma lastIndexOf_absent: "c \<notin> set s \<Longrightarrow> lastIndexOf s c = - 1"
  by (induction s) auto

lemma lastIndexOf_last: "c \<notin> set suf \<Longrightarrow> lastIndexOf (pre @ c # suf) c = int (length pre)"
  by (induction pre) (auto simp: lastIndexOf_absent Let_def)

lemma substring_prefix: "0 \<le> k \<Longrightarrow> substring s 0 k = take (nat k) s"
  by (auto simp: substring_def Let_def min_def max_def)

lemma substring_negative: "k < 0 \<Longrightarrow> substring s 0 k = []"
  by (auto simp: substring_def Let_def min_def max_def)

lemma fileName_dotted: "c \<notin> set suf \<Longrightarrow> c = CHR ''.'' \<Longrightarrow> fileName (pre @ c # suf) = pre @ ''.jpg''"
  by (simp add: fileName_def lastIndexOf_last substring_prefix)

lemma fileName_plain: "CHR ''.'' \<notin> set nm \<Longrightarrow> fileName nm = ''.jpg''"
  by (simp add: fileName_def lastIndexOf_absent substring_negative)

subsection \<open>The retry loop\<close>

lemma loop_success:
  "attempt \<le> MAX_RETRIES \<Longrightarrow> tryAttempt p rq attempt = Inr res \<Longrightarrow>
     analyzeImage_loop p rq attempt le tr = (Inr res, tr @ [Fetch rq])"
  by (subst analyzeImage_loop.simps) simp

lemma loop_failure:
  "attempt \<le> MAX_RETRIES \<Longrightarrow> tryAttempt p rq attempt = Inl m \<Longrightarrow>
     analyzeImage_loop p rq attempt le tr =
       analyzeImage_loop p rq (attempt + 1) (Some m)
         (tr @ [Fetch rq] @ (if attempt < MAX_RETRIES
                             then [Sleep (INITIAL_DELAY_MS * 2 ^ (attempt - 1))] else []))"
  by (subst analyzeImage_loop.simps) simp

lemma loop_exhausted:
  "MAX_RETRIES < attempt \<Longrightarrow>
     analyzeImage_loop p rq attempt le tr = (Inl (Error (exhaustedMessage le)), tr)"
  by (subst analyzeImage_loop.simps) simp

lemma loop_skip:
  "a \<le> k \<Longrightarrow> k \<le> MAX_RETRIES \<Longrightarrow> (\<And>j. a \<le> j \<Longrightarrow> j < k \<Longrightarrow> isl (tryAttempt p rq j)) \<Longrightarrow>
     analyzeImage_loop p rq a le tr =
       analyzeImage_loop p rq k (if a < k then Some (projl (tryAttempt p rq (k - 1))) else le)
         (tr @ delays rq a k)"
proof (induction k)
  case 0
  then show ?case by (simp add: delays_def)
next
  case (Suc k)
  show ?case
  proof (cases "a = Suc k")
    case True
    then show ?thesis by (simp add: delays_def)
  next
    case False
    with Suc.prems have ak: "a \<le> k" and k: "k \<le> MAX_RETRIES" "k < MAX_RETRIES" by auto
    have ih: "analyzeImage_loop p rq a le tr =
       analyzeImage_loop p rq k (if a < k then Some (projl (tryAttempt p rq (k - 1))) else le)
         (tr @ delays rq a k)"
      using Suc.IH [OF ak k(1)] Suc.prems(3) by simp
    have "isl (tryAttempt p rq k)" using Suc.prems(3) [of k] ak by simp
    then obtain m where m: "tryAttempt p rq k = Inl m" by (cases "tryAttempt p rq k") auto
    have d: "delays rq a (Suc k) = delays rq a k @ [Fetch rq, Sleep (INITIAL_DELAY_MS * 2 ^ (k - 1))]"
      using ak by (simp add: delays_def)
    show ?thesis
      using ak by (simp add: ih loop_failure [OF k(1) m] k(2) m d)
  qed
qed

lemma analyzeImage_reaches:
  assumes "compressImage p imageFile 1024 (7 / 10) = Inr cf"
    and "1 \<le> k" "k \<le> MAX_RETRIES"
    and "\<And>j. 1 \<le> j \<Longrightarrow> j < k \<Longrightarrow> isl (tryAttempt p (formRequest cf lang) j)"
  shows "analyzeImage p imageFile lang =
           analyzeImage_loop p (formRequest cf lang) k
             (if 1 < k then Some (projl (tryAttempt p (formRequest cf lang) (k - 1))) else None)
             (delays (formRequest cf lang) 1 k)"
  using loop_skip [OF assms(2,3), of p "formRequest cf lang" None "[]"] assms(1,4)
  by (simp add: analyzeImage_def)

lemma backoffSchedule_delays: "backoffSchedule rq n = delays rq 1 n @ [Fetch rq]"
  by (simp add: backoffSchedule_def delays_def)

lemma loop_extends: "prefix tr (snd (analyzeImage_loop p rq a le tr))"
proof (induction p rq a le tr rule: analyzeImage_loop.induct)
  case (1 p req attempt lastError trace)
  show ?case
  proof (cases "attempt \<le> MAX_RETRIES")
    case False
    then show ?thesis by (simp add: loop_exhausted)
  next
    case True
    show ?thesis
    proof (cases "tryAttempt p req attempt")
      case (Inr res)
      then show ?thesis using True by (simp add: loop_success)
    next
      case (Inl m)
      from "1.IH" [OF True Inl]
      have "prefix (trace @ [Fetch req] @ (if attempt < MAX_RETRIES
                             then [Sleep (INITIAL_DELAY_MS * 2 ^ (attempt - 1))] else []))
              (snd (analyzeImage_loop p req attempt lastError trace))"
        by (simp add: loop_failure [OF True Inl])
      then show ?thesis
        using append_prefixD by blast
    qed
  qed
qed

lemma loop_fetches:
  assumes "a \<le> MAX_RETRIES"
  shows "prefix (tr @ [Fetch rq]) (snd (analyzeImage_loop p rq a le tr))"
proof (cases "tryAttempt p rq a")
  case (Inr res)
  then show ?thesis using assms by (simp add: loop_success)
next
  case (Inl m)
  have "prefix (tr @ [Fetch rq] @ (if a < MAX_RETRIES
                             then [Sleep (INITIAL_DELAY_MS * 2 ^ (a - 1))] else []))
          (snd (analyzeImage_loop p rq a le tr))"
    unfolding loop_failure [OF assms Inl] by (rule loop_extends)
  then show ?thesis
    by (metis append.assoc append_prefixD)
qed

lemma toString_values: "toString 3 = ''3''" "toString 200 = ''200''" "toString 404 = ''404''" "toString 500 = ''500''"
  by code_simp+

lemma schedule_values:
  "backoffSchedule rq 1 = [Fetch rq]"
  "backoffSchedule rq 2 = [Fetch rq, Sleep 1000, Fetch rq]"
  "backoffSchedule rq 3 = [Fetch rq, Sleep 1000, Fetch rq, Sleep 2000, Fetch rq]"
  by (simp_all add: backoffSchedule_def INITIAL_DELAY_MS_def upt_rec)

lemma exhaustedMessage_value:
  "exhaustedMessage (Some m) =
     ''Failed to get a response from the analysis service after 3 attempts. The service may be temporarily unavailable. Last error: ''
     @ (if m = [] then ''Unknown error'' else m)"
  by (simp add: exhaustedMessage_def MAX_RETRIES_def toString_values orElse_def)

lemma schedule_first: "backoffSchedule rq (Suc 0) = [Fetch rq]"
  by (simp add: backoffSchedule_def)

section \<open>The image normalizer\<close>

lemma compressImage_scripted:
  "compressImage (scripted (w, h) script str ce co) file 1024 (7 / 10)
     = Inr \<lparr>name = fileName (name file), ftype = ''image/jpeg'', lastModified = 1700000000000,
            content = CanvasEncoding (fst (canvasSize w h 1024)) (snd (canvasSize w h 1024))
                        ''image/jpeg'' (7 / 10) ''data:image/png;base64,UE5H''\<rparr>"
  by (simp add: compressImage_def scripted_def split: prod.splits)

lemma fileName_values:
  "fileName ''leaf.photo.png'' = ''leaf.photo.jpg''"
  "fileName ''leaf'' = ''.jpg''"
  by (simp_all add: fileName_def substring_def Let_def)

lemma canvasSize_values:
  "canvasSize 800 600 1024 = (800, 600)"
  "canvasSize 4000 3000 1024 = (1024, 768)"
  "canvasSize 3 2049 1024 = (1, 1024)"
  by (simp_all add: canvasSize_def Math_round_def)

lemma compressImage_example:
  "compressImage (scripted (800, 600) script str ce co) examplePhoto 1024 (7 / 10)
     = Inr (exampleCompressed 800 600)"
  by (simp add: compressImage_scripted canvasSize_values fileName_values examplePhoto_def
      exampleCompressed_def)

text \<open>
  C6. An image whose longer edge is at most \<open>maxWidth\<close> is not resized: the compressed
  file has the pixel size of the input image.
\<close>

theorem compressImage_keeps_small_images:
  assumes "readAsDataURL p file = Some src"
    and "loadImage p src = Some (w, h)"
    and "max w h \<le> maxWidth"
    and "compressImage p file maxWidth quality = Inr out"
  shows "pixelSize out = Some (w, h)"
  using assms compressImage_success [OF assms(4)]
  by (auto simp: canvasSize_small)

theorem compressImage_keeps_small_images_witness:
  "readAsDataURL (scripted (800, 600) (\<lambda>n. FetchRejected ''Failed to fetch'') (\<lambda>v. []) None (Inr None))
      examplePhoto = Some ''data:image/png;base64,UE5H''
   \<and> loadImage (scripted (800, 600) (\<lambda>n. FetchRejected ''Failed to fetch'') (\<lambda>v. []) None (Inr None))
      ''data:image/png;base64,UE5H'' = Some (800, 600)
   \<and> max 800 600 \<le> (1024 :: nat)
   \<and> compressImage (scripted (800, 600) (\<lambda>n. FetchRejected ''Failed to fetch'') (\<lambda>v. []) None (Inr None))
      examplePhoto 1024 (7 / 10) = Inr (exampleCompressed 800 600)
   \<and> pixelSize (exampleCompressed 800 600) = Some (800, 600)"
proof -
  let ?p = "scripted (800, 600) (\<lambda>n. FetchRejected ''Failed to fetch'') (\<lambda>v. []) None (Inr None)"
  have r: "readAsDataURL ?p examplePhoto = Some ''data:image/png;base64,UE5H''"
    by (simp add: scripted_def)
  have l: "loadImage ?p ''data:image/png;base64,UE5H'' = Some (800, 600)"
    by (simp add: scripted_def)
  have m: "max 800 600 \<le> (1024 :: nat)" by simp
  have c: "compressImage ?p examplePhoto 1024 (7 / 10) = Inr (exampleCompressed 800 600)"
    by (rule compressImage_example)
  from compressImage_keeps_small_images [OF r l m c] r l m c show ?thesis by simp
qed

text \<open>
  C7. An image whose longer edge exceeds \<open>maxWidth\<close> is resized so that its longer edge is
  exactly \<open>maxWidth\<close>; the other edge is the shorter edge times \<open>maxWidth\<close> over the longer
  edge, rounded to the nearest integer, so it is within half a pixel of the exact ratio; no
  edge of the result exceeds \<open>maxWidth\<close>.
\<close>

theorem compressImage_bounds_large_images:
  assumes "readAsDataURL p file = Some src"
    and "loadImage p src = Some (w, h)"
    and "max w h > maxWidth"
    and "compressImage p file maxWidth quality = Inr out"
  shows "\<exists>w' h'. pixelSize out = Some (w', h') \<and> max w' h' = maxWidth \<and>
           (if w > h
            then w' = maxWidth \<and> h' = nat (Math_round (real (h * maxWidth) / real w))
                 \<and> \<bar>real h' - real (h * maxWidth) / real w\<bar> \<le> 1 / 2
            else h' = maxWidth \<and> w' = nat (Math_round (real (w * maxWidth) / real h))
                 \<and> \<bar>real w' - real (w * maxWidth) / real h\<bar> \<le> 1 / 2)"
proof -
  from compressImage_success [OF assms(4)] assms(1,2)
  have c: "content out = CanvasEncoding (fst (canvasSize w h maxWidth)) (snd (canvasSize w h maxWidth)) ''image/jpeg'' quality src"
    by auto
  have near: "\<bar>real (nat (Math_round x)) - x\<bar> \<le> 1 / 2" if "0 \<le> x" for x
    using Math_round_near [of x] Math_round_nonneg [OF that] by simp
  show ?thesis
  proof (cases "w > h")
    case True
    then have size: "canvasSize w h maxWidth = (maxWidth, nat (Math_round (real (h * maxWidth) / real w)))"
      using assms(3) by (simp add: canvasSize_def)
    have le: "nat (Math_round (real (h * maxWidth) / real w)) \<le> maxWidth"
      using True by (intro Math_round_scaled_le) auto
    have "\<bar>real (nat (Math_round (real (h * maxWidth) / real w))) - real (h * maxWidth) / real w\<bar> \<le> 1 / 2"
      by (rule near) simp
    with True c size le show ?thesis by (simp add: max_def)
  next
    case False
    then have hpos: "maxWidth < h" "w \<le> h" using assms(3) by auto
    then have size: "canvasSize w h maxWidth = (nat (Math_round (real (w * maxWidth) / real h)), maxWidth)"
      by (simp add: canvasSize_def)
    have le: "nat (Math_round (real (w * maxWidth) / real h)) \<le> maxWidth"
      using hpos by (intro Math_round_scaled_le) auto
    have "\<bar>real (nat (Math_round (real (w * maxWidth) / real h))) - real (w * maxWidth) / real h\<bar> \<le> 1 / 2"
      by (rule near) simp
    with False c size le show ?thesis by (simp add: max_def)
  qed
qed

theorem compressImage_bounds_large_images_witness:
  "max 4000 3000 > (1024 :: nat)
   \<and> compressImage (scripted (4000, 3000) (\<lambda>n. FetchRejected ''Failed to fetch'') (\<lambda>v. []) None (Inr None))
        examplePhoto 1024 (7 / 10) = Inr (exampleCompressed 1024 768)
   \<and> pixelSize (exampleCompressed 1024 768) = Some (1024, 768)
   \<and> max 3 2049 > (1024 :: nat)
   \<and> compressImage (scripted (3, 2049) (\<lambda>n. FetchRejected ''Failed to fetch'') (\<lambda>v. []) None (Inr None))
        examplePhoto 1024 (7 / 10) = Inr (exampleCompressed 1 1024)
   \<and> pixelSize (exampleCompressed 1 1024) = Some (1, 1024)"
proof -
  let ?p = "scripted (4000, 3000) (\<lambda>n. FetchRejected ''Failed to fetch'') (\<lambda>v. []) None (Inr None)"
  let ?q = "scripted (3, 2049) (\<lambda>n. FetchRejected ''Failed to fetch'') (\<lambda>v. []) None (Inr None)"
  have r: "readAsDataURL ?p examplePhoto = Some ''data:image/png;base64,UE5H''"
    and r': "readAsDataURL ?q examplePhoto = Some ''data:image/png;base64,UE5H''"
    by (simp_all add: scripted_def)
  have l: "loadImage ?p ''data:image/png;base64,UE5H'' = Some (4000, 3000)"
    and l': "loadImage ?q ''data:image/png;base64,UE5H'' = Some (3, 2049)"
    by (simp_all add: scripted_def)
  have m: "max 4000 3000 > (1024 :: nat)" and m': "max 3 2049 > (1024 :: nat)" by simp_all
  have c: "compressImage ?p examplePhoto 1024 (7 / 10) = Inr (exampleCompressed 1024 768)"
    and c': "compressImage ?q examplePhoto 1024 (7 / 10) = Inr (exampleCompressed 1 1024)"
    by (simp_all add: compressImage_scripted canvasSize_values fileName_values examplePhoto_def
        exampleCompressed_def)
  have v: "nat (Math_round (real (3000 * 1024) / real 4000)) = 768"
    and v': "nat (Math_round (real (3 * 1024) / real 2049)) = 1"
    by (simp_all add: Math_round_def)
  from compressImage_bounds_large_images [OF r l m c]
  have "pixelSize (exampleCompressed 1024 768) = Some (1024, 768)"
    using v by auto
  moreover from compressImage_bounds_large_images [OF r' l' m' c']
  have "pixelSize (exampleCompressed 1 1024) = Some (1, 1024)"
    using v' by auto
  ultimately show ?thesis using m m' c c' by simp
qed

text \<open>
  C10. The name of the compressed file: when the name of the input file contains a dot, what
  precedes its last dot, followed by \<open>.jpg\<close>; when it contains none, \<open>.jpg\<close> alone, the
  name of the input file being dropped altogether.
\<close>

theorem compressImage_file_name:
  assumes "compressImage p file maxWidth quality = Inr out"
  shows "(CHR ''.'' \<in> set (name file) \<longrightarrow>
            (\<exists>pre suf. name file = pre @ ''.'' @ suf \<and> CHR ''.'' \<notin> set suf \<and> name out = pre @ ''.jpg''))
         \<and> (CHR ''.'' \<notin> set (name file) \<longrightarrow> name out = ''.jpg'')"
proof -
  from compressImage_success [OF assms] have nm: "name out = fileName (name file)" by auto
  show ?thesis
  proof (intro conjI impI)
    assume "CHR ''.'' \<in> set (name file)"
    then obtain pre suf where s: "name file = pre @ CHR ''.'' # suf" "CHR ''.'' \<notin> set suf"
      using split_list_last [of "CHR ''.''" "name file"] by auto
    then have "name out = pre @ ''.jpg''"
      using nm fileName_dotted [of "CHR ''.''" suf pre] by simp
    with s show "\<exists>pre suf. name file = pre @ ''.'' @ suf \<and> CHR ''.'' \<notin> set suf \<and> name out = pre @ ''.jpg''"
      by auto
  next
    assume "CHR ''.'' \<notin> set (name file)"
    then show "name out = ''.jpg''" using nm by (simp add: fileName_plain)
  qed
qed

theorem compressImage_file_name_witness:
  "compressImage (scripted (800, 600) (\<lambda>n. FetchRejected ''Failed to fetch'') (\<lambda>v. []) None (Inr None))
      examplePhoto 1024 (7 / 10) = Inr (exampleCompressed 800 600)
   \<and> CHR ''.'' \<in> set (name examplePhoto)
   \<and> name examplePhoto = ''leaf.photo'' @ ''.'' @ ''png''
   \<and> name (exampleCompressed 800 600) = ''leaf.photo'' @ ''.jpg''
   \<and> compressImage (scripted (800, 600) (\<lambda>n. FetchRejected ''Failed to fetch'') (\<lambda>v. []) None (Inr None))
      (examplePhoto\<lparr>name := ''leaf''\<rparr>) 1024 (7 / 10) = Inr ((exampleCompressed 800 600)\<lparr>name := ''.jpg''\<rparr>)
   \<and> CHR ''.'' \<notin> set (name (examplePhoto\<lparr>name := ''leaf''\<rparr>))
   \<and> name ((exampleCompressed 800 600)\<lparr>name := ''.jpg''\<rparr>) = ''.jpg''"
proof -
  let ?p = "scripted (800, 600) (\<lambda>n. FetchRejected ''Failed to fetch'') (\<lambda>v. []) None (Inr None)"
  have c: "compressImage ?p examplePhoto 1024 (7 / 10) = Inr (exampleCompressed 800 600)"
    by (rule compressImage_example)
  have c': "compressImage ?p (examplePhoto\<lparr>name := ''leaf''\<rparr>) 1024 (7 / 10)
              = Inr ((exampleCompressed 800 600)\<lparr>name := ''.jpg''\<rparr>)"
    by (simp add: compressImage_scripted canvasSize_values fileName_values examplePhoto_def
        exampleCompressed_def)
  have d: "CHR ''.'' \<in> set (name examplePhoto)"
    and d': "CHR ''.'' \<notin> set (name (examplePhoto\<lparr>name := ''leaf''\<rparr>))"
    by (simp_all add: examplePhoto_def)
  from compressImage_file_name [OF c] d
  obtain pre suf where s: "name examplePhoto = pre @ ''.'' @ suf" "CHR ''.'' \<notin> set suf"
    "name (exampleCompressed 800 600) = pre @ ''.jpg''"
    by blast
  from s(3) have "pre = ''leaf.photo''" by (simp add: exampleCompressed_def)
  with s have a: "name examplePhoto = ''leaf.photo'' @ ''.'' @ ''png''"
    "name (exampleCompressed 800 600) = ''leaf.photo'' @ ''.jpg''"
    by (simp_all add: examplePhoto_def)
  from compressImage_file_name [OF c'] d'
  have b: "name ((exampleCompressed 800 600)\<lparr>name := ''.jpg''\<rparr>) = ''.jpg''" by blast
  from a b c c' d d' show ?thesis by blast
qed

section \<open>The submission client\<close>

lemma tryAttempt_empty_body:
  "fetch p k rq = Response r \<Longrightarrow> ok r \<Longrightarrow> bodyText r = Inr [] \<Longrightarrow>
     tryAttempt p rq k = Inl ''The analysis service returned a successful but empty response.''"
  by (simp add: tryAttempt_def ok_def)

lemma tryAttempt_body:
  "fetch p k rq = Response r \<Longrightarrow> ok r \<Longrightarrow> bodyText r = Inr body \<Longrightarrow> body \<noteq> [] \<Longrightarrow>
     tryAttempt p rq k = Inr (readReport p body)"
  by (simp add: tryAttempt_def ok_def)

lemma tryAttempt_not_ok:
  "fetch p k rq = Response r \<Longrightarrow> \<not> ok r \<Longrightarrow> isl (tryAttempt p rq k)"
  by (simp add: tryAttempt_def split: sum.splits)

text \<open>An attempt fails exactly when something is thrown inside the \<open>try\<close>.\<close>

lemma tryAttempt_fails_iff:
  "isl (tryAttempt p rq k) \<longleftrightarrow>
     (case fetch p k rq of
        FetchRejected message \<Rightarrow> True
      | Response r \<Rightarrow> \<not> ok r \<or> isl (bodyText r) \<or> bodyText r = Inr [])"
  by (auto simp: tryAttempt_def ok_def split: fetch_result.splits sum.splits)

lemma analyzeImage_ends_at:
  assumes "compressImage p imageFile 1024 (7 / 10) = Inr cf"
    and "1 \<le> k" "k \<le> MAX_RETRIES"
    and "\<And>j. 1 \<le> j \<Longrightarrow> j < k \<Longrightarrow> isl (tryAttempt p (formRequest cf lang) j)"
    and "tryAttempt p (formRequest cf lang) k = Inr res"
  shows "analyzeImage p imageFile lang = (Inr res, backoffSchedule (formRequest cf lang) k)"
  using analyzeImage_reaches [OF assms(1-4)] loop_success [OF assms(3,5)]
  by (simp add: backoffSchedule_delays)

lemma analyzeImage_gives_up:
  assumes "compressImage p imageFile 1024 (7 / 10) = Inr cf"
    and "\<And>j. 1 \<le> j \<Longrightarrow> j < MAX_RETRIES \<Longrightarrow> isl (tryAttempt p (formRequest cf lang) j)"
    and "tryAttempt p (formRequest cf lang) MAX_RETRIES = Inl m"
  shows "analyzeImage p imageFile lang =
           (Inl (Error (exhaustedMessage (Some m))), backoffSchedule (formRequest cf lang) MAX_RETRIES)"
proof -
  have "analyzeImage p imageFile lang =
          analyzeImage_loop p (formRequest cf lang) MAX_RETRIES
             (if 1 < MAX_RETRIES then Some (projl (tryAttempt p (formRequest cf lang) (MAX_RETRIES - 1))) else None)
             (delays (formRequest cf lang) 1 MAX_RETRIES)"
    using assms(2) by (intro analyzeImage_reaches [OF assms(1)]) (simp_all add: MAX_RETRIES_def)
  also have "\<dots> = (Inl (Error (exhaustedMessage (Some m))), backoffSchedule (formRequest cf lang) MAX_RETRIES)"
    using loop_failure [OF order_refl assms(3)]
    by (simp add: loop_exhausted backoffSchedule_delays)
  finally show ?thesis .
qed

lemma request_example: "formRequest (exampleCompressed 800 600) English = exampleRequest"
  by (simp add: exampleRequest_def)

lemma compressImage_network:
  "compressImage (network script) examplePhoto 1024 (7 / 10) = Inr (exampleCompressed 800 600)"
  by (simp add: network_def compressImage_example)

lemma fetch_network: "fetch (network script) n rq = script n"
  by (simp add: network_def scripted_def)

lemma tryAttempt_rejecting:
  "tryAttempt (network rejecting) rq n =
     Inl ''Analysis service rejected the request: 404 Not Found - no such webhook''"
  by (simp add: tryAttempt_def fetch_network rejecting_def httpResponse_def toString_values orElse_def)

lemma tryAttempt_failing:
  "script n = failing n \<Longrightarrow> tryAttempt (network script) rq n =
     Inl ''Webhook request failed: 500 Internal Server Error - overloaded''"
  by (simp add: tryAttempt_def fetch_network failing_def httpResponse_def toString_values orElse_def ok_def)

lemma parseJSON_values:
  "parseJSON okBody = Some (JObject [(''text'', JString ''ok'')])"
  "parseJSON doneBody = Some (JObject [(''status'', JString ''done'')])"
  "parseJSON ''plain text report'' = None"
  unfolding okBody_def doneBody_def by code_simp+

lemma JSON_parse_network: "JSON_parse (network script) = parseJSON"
  by (simp add: network_def scripted_def)

text \<open>
  C1. A response with a status from 400 to 499 is meant to end the submission at once. The
  error of line 97 is thrown inside the \<open>try\<close> whose \<open>catch\<close> (line 128) retries, so the
  request is sent again: with a service that answers 404 every time, three requests are
  sent, both delays are slept, and the error that reaches the caller is the one of line 141.
\<close>

theorem analyzeImage_retries_client_error:
  "analyzeImage (network rejecting) examplePhoto English =
     (Inl (Error (''Failed to get a response from the analysis service after 3 attempts. ''
                  @ ''The service may be temporarily unavailable. Last error: ''
                  @ ''Analysis service rejected the request: 404 Not Found - no such webhook'')),
      [Fetch exampleRequest, Sleep 1000, Fetch exampleRequest, Sleep 2000, Fetch exampleRequest])"
proof -
  have "analyzeImage (network rejecting) examplePhoto English =
          (Inl (Error (exhaustedMessage
                  (Some ''Analysis service rejected the request: 404 Not Found - no such webhook''))),
           backoffSchedule (formRequest (exampleCompressed 800 600) English) MAX_RETRIES)"
    by (rule analyzeImage_gives_up [OF compressImage_network]) (simp_all add: tryAttempt_rejecting)
  then show ?thesis
    by (simp add: exhaustedMessage_value request_example MAX_RETRIES_def schedule_values)
qed

text \<open>
  C2. When each of the three attempts ends in a failure, \<open>analyzeImage\<close> throws one error;
  its message names the 3 attempts and ends with the message of the last failure (with
  \<open>Unknown error\<close> in its place when that message is empty). Three requests were sent.
\<close>

theorem analyzeImage_exhausted:
  assumes "compressImage p imageFile 1024 (7 / 10) = Inr cf"
    and "tryAttempt p (formRequest cf lang) 1 = Inl m1"
    and "tryAttempt p (formRequest cf lang) 2 = Inl m2"
    and "tryAttempt p (formRequest cf lang) 3 = Inl m3"
  shows "analyzeImage p imageFile lang =
           (Inl (Error (''Failed to get a response from the analysis service after 3 attempts. ''
                        @ ''The service may be temporarily unavailable. Last error: ''
                        @ (if m3 = [] then ''Unknown error'' else m3))),
            [Fetch (formRequest cf lang), Sleep 1000, Fetch (formRequest cf lang), Sleep 2000,
             Fetch (formRequest cf lang)])"
proof -
  have fails: "isl (tryAttempt p (formRequest cf lang) j)" if "1 \<le> j" "j < MAX_RETRIES" for j
  proof -
    from that have "j = 1 \<or> j = 2" by (auto simp: MAX_RETRIES_def)
    then show ?thesis using assms(2,3) by auto
  qed
  have "analyzeImage p imageFile lang =
          (Inl (Error (exhaustedMessage (Some m3))), backoffSchedule (formRequest cf lang) MAX_RETRIES)"
    using assms(4) by (intro analyzeImage_gives_up [OF assms(1) fails]) (simp_all add: MAX_RETRIES_def)
  then show ?thesis
    by (simp add: exhaustedMessage_value MAX_RETRIES_def schedule_values)
qed

theorem analyzeImage_exhausted_witness:
  "compressImage (network failing) examplePhoto 1024 (7 / 10) = Inr (exampleCompressed 800 600)
   \<and> tryAttempt (network failing) exampleRequest 1
       = Inl ''Webhook request failed: 500 Internal Server Error - overloaded''
   \<and> tryAttempt (network failing) exampleRequest 2
       = Inl ''Webhook request failed: 500 Internal Server Error - overloaded''
   \<and> tryAttempt (network failing) exampleRequest 3
       = Inl ''Webhook request failed: 500 Internal Server Error - overloaded''
   \<and> analyzeImage (network failing) examplePhoto English =
       (Inl (Error (''Failed to get a response from the analysis service after 3 attempts. ''
                    @ ''The service may be temporarily unavailable. Last error: ''
                    @ ''Webhook request failed: 500 Internal Server Error - overloaded'')),
        [Fetch exampleRequest, Sleep 1000, Fetch exampleRequest, Sleep 2000, Fetch exampleRequest])"
proof -
  have c: "compressImage (network failing) examplePhoto 1024 (7 / 10) = Inr (exampleCompressed 800 600)"
    by (rule compressImage_network)
  have t: "tryAttempt (network failing) (formRequest (exampleCompressed 800 600) English) n
             = Inl ''Webhook request failed: 500 Internal Server Error - overloaded''" for n
    by (simp add: tryAttempt_failing)
  from analyzeImage_exhausted [OF c t t t] c t show ?thesis
    by (simp add: request_example)
qed

text \<open>
  C3. The delays follow the schedule: when the attempts before attempt \<open>n\<close> fail and
  attempt \<open>n\<close> is the last one (it returns, or it is attempt 3), the events are a request
  per attempt, with a delay of \<open>INITIAL_DELAY_MS * 2 ^ (k - 1)\<close> between attempt \<open>k\<close> and
  attempt \<open>k + 1\<close> and nothing after the last request. In particular, status 500 on
  attempts 1 and 2 and then status 200 with the body \<open>okBody\<close>, which \<open>JSON.parse\<close> reads
  as an object whose \<open>text\<close> is \<open>ok\<close>, give \<open>ok\<close> after delays of 1000 and 2000.
\<close>

theorem analyzeImage_backoff:
  assumes "compressImage p imageFile 1024 (7 / 10) = Inr cf"
  shows "(\<forall>n. 1 \<le> n \<and> n \<le> MAX_RETRIES
              \<and> (\<forall>j. 1 \<le> j \<and> j < n \<longrightarrow> isl (tryAttempt p (formRequest cf lang) j))
              \<and> (n = MAX_RETRIES \<or> \<not> isl (tryAttempt p (formRequest cf lang) n))
            \<longrightarrow> snd (analyzeImage p imageFile lang) = backoffSchedule (formRequest cf lang) n)
         \<and> (\<forall>r1 r2 r3.
               fetch p 1 (formRequest cf lang) = Response r1 \<and> status r1 = 500
               \<and> fetch p 2 (formRequest cf lang) = Response r2 \<and> status r2 = 500
               \<and> fetch p 3 (formRequest cf lang) = Response r3 \<and> status r3 = 200
               \<and> bodyText r3 = Inr okBody
               \<and> JSON_parse p okBody = Some (JObject [(''text'', JString ''ok'')])
            \<longrightarrow> analyzeImage p imageFile lang =
                  (Inr ''ok'',
                   [Fetch (formRequest cf lang), Sleep 1000, Fetch (formRequest cf lang), Sleep 2000,
                    Fetch (formRequest cf lang)]))"
proof (intro conjI allI impI)
  fix n
  assume a: "1 \<le> n \<and> n \<le> MAX_RETRIES
              \<and> (\<forall>j. 1 \<le> j \<and> j < n \<longrightarrow> isl (tryAttempt p (formRequest cf lang) j))
              \<and> (n = MAX_RETRIES \<or> \<not> isl (tryAttempt p (formRequest cf lang) n))"
  then have n: "1 \<le> n" "n \<le> MAX_RETRIES"
    and fails: "\<And>j. 1 \<le> j \<Longrightarrow> j < n \<Longrightarrow> isl (tryAttempt p (formRequest cf lang) j)"
    by auto
  show "snd (analyzeImage p imageFile lang) = backoffSchedule (formRequest cf lang) n"
  proof (cases "tryAttempt p (formRequest cf lang) n")
    case (Inr res)
    from analyzeImage_ends_at [OF assms n fails Inr] show ?thesis by simp
  next
    case (Inl m)
    with a have last: "n = MAX_RETRIES" by auto
    from analyzeImage_gives_up [OF assms, of lang m] fails Inl
    show ?thesis unfolding last by simp
  qed
next
  fix r1 r2 r3
  assume a: "fetch p 1 (formRequest cf lang) = Response r1 \<and> status r1 = 500
               \<and> fetch p 2 (formRequest cf lang) = Response r2 \<and> status r2 = 500
               \<and> fetch p 3 (formRequest cf lang) = Response r3 \<and> status r3 = 200
               \<and> bodyText r3 = Inr okBody
               \<and> JSON_parse p okBody = Some (JObject [(''text'', JString ''ok'')])"
  have f1: "isl (tryAttempt p (formRequest cf lang) 1)"
    using a by (intro tryAttempt_not_ok [of p 1 _ r1]) (simp_all add: ok_def)
  have f2: "isl (tryAttempt p (formRequest cf lang) 2)"
    using a by (intro tryAttempt_not_ok [of p 2 _ r2]) (simp_all add: ok_def)
  have fails: "isl (tryAttempt p (formRequest cf lang) j)" if "1 \<le> j" "j < 3" for j
  proof -
    from that have "j = 1 \<or> j = 2" by auto
    then show ?thesis using f1 f2 by auto
  qed
  have "okBody \<noteq> []" by (simp add: okBody_def)
  then have "tryAttempt p (formRequest cf lang) 3 = Inr (readReport p okBody)"
    using a by (intro tryAttempt_body) (auto simp: ok_def)
  also have "readReport p okBody = ''ok''"
    using a by (simp add: readReport_def)
  finally have "analyzeImage p imageFile lang = (Inr ''ok'', backoffSchedule (formRequest cf lang) 3)"
    using fails by (intro analyzeImage_ends_at [OF assms]) (simp_all add: MAX_RETRIES_def)
  then show "analyzeImage p imageFile lang =
                  (Inr ''ok'',
                   [Fetch (formRequest cf lang), Sleep 1000, Fetch (formRequest cf lang), Sleep 2000,
                    Fetch (formRequest cf lang)])"
    by (simp add: schedule_values)
qed

theorem analyzeImage_backoff_witness:
  "compressImage (network recovering) examplePhoto 1024 (7 / 10) = Inr (exampleCompressed 800 600)
   \<and> fetch (network recovering) 1 exampleRequest = httpResponse 500 ''Internal Server Error'' ''overloaded''
   \<and> fetch (network recovering) 2 exampleRequest = httpResponse 500 ''Internal Server Error'' ''overloaded''
   \<and> fetch (network recovering) 3 exampleRequest = httpResponse 200 ''OK'' okBody
   \<and> JSON_parse (network recovering) okBody = Some (JObject [(''text'', JString ''ok'')])
   \<and> analyzeImage (network recovering) examplePhoto English =
       (Inr ''ok'',
        [Fetch exampleRequest, Sleep 1000, Fetch exampleRequest, Sleep 2000, Fetch exampleRequest])
   \<and> snd (analyzeImage (network recovering) examplePhoto English) = backoffSchedule exampleRequest 3"
proof -
  let ?p = "network recovering"
  let ?rq = "formRequest (exampleCompressed 800 600) English"
  have c: "compressImage ?p examplePhoto 1024 (7 / 10) = Inr (exampleCompressed 800 600)"
    by (rule compressImage_network)
  have f: "fetch ?p 1 ?rq = httpResponse 500 ''Internal Server Error'' ''overloaded''"
    "fetch ?p 2 ?rq = httpResponse 500 ''Internal Server Error'' ''overloaded''"
    "fetch ?p 3 ?rq = httpResponse 200 ''OK'' okBody"
    by (simp_all add: fetch_network recovering_def failing_def)
  have j: "JSON_parse ?p okBody = Some (JObject [(''text'', JString ''ok'')])"
    by (simp add: JSON_parse_network parseJSON_values)
  note inst = analyzeImage_backoff [OF c, of English]
  have run: "analyzeImage ?p examplePhoto English =
       (Inr ''ok'', [Fetch ?rq, Sleep 1000, Fetch ?rq, Sleep 2000, Fetch ?rq])"
    using inst f j by (simp add: httpResponse_def)
  have fails: "isl (tryAttempt ?p ?rq k)" if "1 \<le> k \<and> k < 3" for k
    using that by (simp add: tryAttempt_failing recovering_def)
  have "snd (analyzeImage ?p examplePhoto English) = backoffSchedule ?rq 3"
    using inst fails by (simp add: MAX_RETRIES_def)
  with run c f j show ?thesis by (simp add: request_example)
qed

text \<open>
  C4. A response with a status from 200 to 299 and an empty body makes its attempt fail with
  the message of line 109, and the failure is handled like any other: before the last
  attempt the delay is slept and the request is sent again; at the last attempt the error of
  line 141 is thrown. The empty body is not returned.
\<close>

theorem analyzeImage_empty_body:
  assumes "compressImage p imageFile 1024 (7 / 10) = Inr cf"
    and "1 \<le> k" and "k \<le> MAX_RETRIES"
    and "\<forall>j. 1 \<le> j \<and> j < k \<longrightarrow> isl (tryAttempt p (formRequest cf lang) j)"
    and "fetch p k (formRequest cf lang) = Response r"
    and "ok r"
    and "bodyText r = Inr []"
  shows "tryAttempt p (formRequest cf lang) k
           = Inl ''The analysis service returned a successful but empty response.''
         \<and> (k < MAX_RETRIES \<longrightarrow>
              prefix (backoffSchedule (formRequest cf lang) k
                      @ [Sleep (INITIAL_DELAY_MS * 2 ^ (k - 1)), Fetch (formRequest cf lang)])
                     (snd (analyzeImage p imageFile lang)))
         \<and> (k = MAX_RETRIES \<longrightarrow>
              analyzeImage p imageFile lang =
                (Inl (Error (''Failed to get a response from the analysis service after 3 attempts. ''
                             @ ''The service may be temporarily unavailable. Last error: ''
                             @ ''The analysis service returned a successful but empty response.'')),
                 backoffSchedule (formRequest cf lang) k))"
proof (intro conjI impI)
  let ?rq = "formRequest cf lang"
  show t: "tryAttempt p ?rq k = Inl ''The analysis service returned a successful but empty response.''"
    using assms(5-7) by (rule tryAttempt_empty_body)
  have fails: "\<And>j. 1 \<le> j \<Longrightarrow> j < k \<Longrightarrow> isl (tryAttempt p ?rq j)"
    using assms(4) by simp
  {
    assume lt: "k < MAX_RETRIES"
    have "analyzeImage p imageFile lang =
            analyzeImage_loop p ?rq (k + 1)
              (Some ''The analysis service returned a successful but empty response.'')
              ((delays ?rq 1 k @ [Fetch ?rq]) @ [Sleep (INITIAL_DELAY_MS * 2 ^ (k - 1))])"
      using analyzeImage_reaches [OF assms(1-3) fails] loop_failure [OF assms(3) t] lt by simp
    moreover have "k + 1 \<le> MAX_RETRIES" using lt by simp
    ultimately show "prefix (backoffSchedule ?rq k @ [Sleep (INITIAL_DELAY_MS * 2 ^ (k - 1)), Fetch ?rq])
                       (snd (analyzeImage p imageFile lang))"
      using loop_fetches [of "k + 1" "(delays ?rq 1 k @ [Fetch ?rq]) @ [Sleep (INITIAL_DELAY_MS * 2 ^ (k - 1))]" ?rq p]
      by (simp add: backoffSchedule_delays)
  }
  {
    assume eq: "k = MAX_RETRIES"
    from analyzeImage_gives_up [OF assms(1), of lang] fails t
    show "analyzeImage p imageFile lang =
                (Inl (Error (''Failed to get a response from the analysis service after 3 attempts. ''
                             @ ''The service may be temporarily unavailable. Last error: ''
                             @ ''The analysis service returned a successful but empty response.'')),
                 backoffSchedule ?rq k)"
      unfolding eq by (simp add: exhaustedMessage_value)
  }
qed

theorem analyzeImage_empty_body_witness:
  "compressImage (network emptyThenPlain) examplePhoto 1024 (7 / 10) = Inr (exampleCompressed 800 600)
   \<and> fetch (network emptyThenPlain) 1 exampleRequest = httpResponse 200 ''OK'' []
   \<and> tryAttempt (network emptyThenPlain) exampleRequest 1
       = Inl ''The analysis service returned a successful but empty response.''
   \<and> prefix [Fetch exampleRequest, Sleep 1000, Fetch exampleRequest]
        (snd (analyzeImage (network emptyThenPlain) examplePhoto English))
   \<and> compressImage (network emptyForever) examplePhoto 1024 (7 / 10) = Inr (exampleCompressed 800 600)
   \<and> isl (tryAttempt (network emptyForever) exampleRequest 1)
   \<and> isl (tryAttempt (network emptyForever) exampleRequest 2)
   \<and> fetch (network emptyForever) 3 exampleRequest = httpResponse 204 ''No Content'' []
   \<and> analyzeImage (network emptyForever) examplePhoto English =
       (Inl (Error (''Failed to get a response from the analysis service after 3 attempts. ''
                    @ ''The service may be temporarily unavailable. Last error: ''
                    @ ''The analysis service returned a successful but empty response.'')),
        [Fetch exampleRequest, Sleep 1000, Fetch exampleRequest, Sleep 2000, Fetch exampleRequest])"
proof -
  let ?p = "network emptyThenPlain"
  let ?q = "network emptyForever"
  let ?rq = "formRequest (exampleCompressed 800 600) English"
  have c: "compressImage ?p examplePhoto 1024 (7 / 10) = Inr (exampleCompressed 800 600)"
    and c': "compressImage ?q examplePhoto 1024 (7 / 10) = Inr (exampleCompressed 800 600)"
    by (rule compressImage_network)+
  have f: "fetch ?p 1 ?rq = Response \<lparr>status = 200, statusText = ''OK'', bodyText = Inr []\<rparr>"
    and f': "fetch ?q 3 ?rq = Response \<lparr>status = 204, statusText = ''No Content'', bodyText = Inr []\<rparr>"
    by (simp_all add: fetch_network emptyThenPlain_def emptyForever_def httpResponse_def)
  have o: "ok \<lparr>status = 200, statusText = ''OK'', bodyText = Inr []\<rparr>"
    and o': "ok \<lparr>status = 204, statusText = ''No Content'', bodyText = Inr []\<rparr>"
    by (simp_all add: ok_def)
  have none: "\<forall>j. 1 \<le> j \<and> j < (1 :: nat) \<longrightarrow> isl (tryAttempt ?p ?rq j)" by simp
  have fails: "isl (tryAttempt ?q ?rq j)" if "j < 3" for j
    using that by (simp add: tryAttempt_failing emptyForever_def)
  then have two: "\<forall>j. 1 \<le> j \<and> j < 3 \<longrightarrow> isl (tryAttempt ?q ?rq j)" by simp
  from analyzeImage_empty_body [OF c _ _ none f o]
  have a: "tryAttempt ?p ?rq 1 = Inl ''The analysis service returned a successful but empty response.''"
    "prefix [Fetch ?rq, Sleep 1000, Fetch ?rq] (snd (analyzeImage ?p examplePhoto English))"
    by (simp_all add: MAX_RETRIES_def schedule_first INITIAL_DELAY_MS_def)
  from analyzeImage_empty_body [OF c' _ _ two f' o']
  have b: "analyzeImage ?q examplePhoto English =
       (Inl (Error (''Failed to get a response from the analysis service after 3 attempts. ''
                    @ ''The service may be temporarily unavailable. Last error: ''
                    @ ''The analysis service returned a successful but empty response.'')),
        [Fetch ?rq, Sleep 1000, Fetch ?rq, Sleep 2000, Fetch ?rq])"
    by (simp add: MAX_RETRIES_def schedule_values)
  from a b c c' f f' fails [of 1] fails [of 2] show ?thesis
    by (simp add: request_example httpResponse_def)
qed

lemma readReport_text:
  "JSON_parse p body = Some v \<Longrightarrow> textProperty v = Some (JString t) \<Longrightarrow> readReport p body = t"
  by (simp add: readReport_def)

lemma readReport_raw: "JSON_parse p body = None \<Longrightarrow> readReport p body = body"
  by (simp add: readReport_def)

lemma readReport_other:
  "JSON_parse p body = Some v \<Longrightarrow> \<forall>t. textProperty v \<noteq> Some (JString t) \<Longrightarrow>
     readReport p body =
       ''Could not find analysis text in the response. The service returned:''
       @ [CHR 0x0A, CHR 0x0A] @ JSON_stringify p v"
  by (auto simp: readReport_def split: option.splits json.splits)

text \<open>
  C5. A response with a status from 200 to 299 and a non-empty body ends the submission with
  a result: the \<open>text\<close> of the parsed body when the body parses to an object whose \<open>text\<close>
  is a string; the body itself when it does not parse; and otherwise a message that ends
  with the serialized value, nothing being thrown.
\<close>

theorem analyzeImage_reads_body:
  assumes "compressImage p imageFile 1024 (7 / 10) = Inr cf"
    and "1 \<le> k" and "k \<le> MAX_RETRIES"
    and "\<forall>j. 1 \<le> j \<and> j < k \<longrightarrow> isl (tryAttempt p (formRequest cf lang) j)"
    and "fetch p k (formRequest cf lang) = Response r"
    and "ok r"
    and "bodyText r = Inr body"
    and "body \<noteq> []"
  shows "snd (analyzeImage p imageFile lang) = backoffSchedule (formRequest cf lang) k
         \<and> (\<forall>v t. JSON_parse p body = Some v \<and> textProperty v = Some (JString t)
                \<longrightarrow> fst (analyzeImage p imageFile lang) = Inr t)
         \<and> (JSON_parse p body = None \<longrightarrow> fst (analyzeImage p imageFile lang) = Inr body)
         \<and> (\<forall>v. JSON_parse p body = Some v \<and> (\<forall>t. textProperty v \<noteq> Some (JString t))
                \<longrightarrow> fst (analyzeImage p imageFile lang) =
                      Inr (''Could not find analysis text in the response. The service returned:''
                           @ [CHR 0x0A, CHR 0x0A] @ JSON_stringify p v))"
proof -
  have fails: "\<And>j. 1 \<le> j \<Longrightarrow> j < k \<Longrightarrow> isl (tryAttempt p (formRequest cf lang) j)"
    using assms(4) by simp
  have "tryAttempt p (formRequest cf lang) k = Inr (readReport p body)"
    using assms(5-8) by (rule tryAttempt_body)
  from analyzeImage_ends_at [OF assms(1-3) fails this]
  have run: "analyzeImage p imageFile lang = (Inr (readReport p body), backoffSchedule (formRequest cf lang) k)"
    by simp
  show ?thesis
    unfolding run by (simp add: readReport_text readReport_raw readReport_other)
qed

theorem analyzeImage_reads_body_witness:
  "fetch (network recovering) 3 exampleRequest = httpResponse 200 ''OK'' okBody
   \<and> JSON_parse (network recovering) okBody = Some (JObject [(''text'', JString ''ok'')])
   \<and> fst (analyzeImage (network recovering) examplePhoto English) = Inr ''ok''
   \<and> fetch (network emptyThenPlain) 2 exampleRequest = httpResponse 200 ''OK'' ''plain text report''
   \<and> JSON_parse (network emptyThenPlain) ''plain text report'' = None
   \<and> fst (analyzeImage (network emptyThenPlain) examplePhoto English) = Inr ''plain text report''
   \<and> fetch (network undescribed) 1 exampleRequest = httpResponse 200 ''OK'' doneBody
   \<and> JSON_parse (network undescribed) doneBody = Some (JObject [(''status'', JString ''done'')])
   \<and> JSON_stringify (network undescribed) (JObject [(''status'', JString ''done'')]) = doneText
   \<and> analyzeImage (network undescribed) examplePhoto English =
       (Inr (''Could not find analysis text in the response. The service returned:''
             @ [CHR 0x0A, CHR 0x0A] @ doneText),
        [Fetch exampleRequest])"
proof -
  let ?rq = "formRequest (exampleCompressed 800 600) English"
  have c: "compressImage (network script) examplePhoto 1024 (7 / 10) = Inr (exampleCompressed 800 600)"
    for script by (rule compressImage_network)
  have o: "ok \<lparr>status = 200, statusText = ''OK'', bodyText = Inr b\<rparr>" for b
    by (simp add: ok_def)
  have ne: "okBody \<noteq> []" "''plain text report'' \<noteq> []" "doneBody \<noteq> []"
    by (simp_all add: okBody_def doneBody_def)
  \<comment> \<open>the third attempt answers with the object\<close>
  have f1: "fetch (network recovering) 3 ?rq
              = Response \<lparr>status = 200, statusText = ''OK'', bodyText = Inr okBody\<rparr>"
    by (simp add: fetch_network recovering_def httpResponse_def)
  have p1: "\<forall>j. 1 \<le> j \<and> j < 3 \<longrightarrow> isl (tryAttempt (network recovering) ?rq j)"
    by (simp add: tryAttempt_failing recovering_def)
  have j1: "JSON_parse (network recovering) okBody = Some (JObject [(''text'', JString ''ok'')])"
    by (simp add: JSON_parse_network parseJSON_values)
  from analyzeImage_reads_body [OF c _ _ p1 f1 o _ ne(1)] j1
  have r1: "fst (analyzeImage (network recovering) examplePhoto English) = Inr ''ok''"
    by (simp add: MAX_RETRIES_def)
  \<comment> \<open>the second attempt answers with plain text\<close>
  have f2: "fetch (network emptyThenPlain) 2 ?rq
              = Response \<lparr>status = 200, statusText = ''OK'', bodyText = Inr ''plain text report''\<rparr>"
    by (simp add: fetch_network emptyThenPlain_def httpResponse_def)
  have "tryAttempt (network emptyThenPlain) ?rq 1
          = Inl ''The analysis service returned a successful but empty response.''"
    by (rule tryAttempt_empty_body [of _ _ _ "\<lparr>status = 200, statusText = ''OK'', bodyText = Inr []\<rparr>"])
       (simp_all add: fetch_network emptyThenPlain_def httpResponse_def ok_def)
  then have p2: "\<forall>j. 1 \<le> j \<and> j < 2 \<longrightarrow> isl (tryAttempt (network emptyThenPlain) ?rq j)"
    by (auto simp: less_Suc_eq numeral_2_eq_2)
  have j2: "JSON_parse (network emptyThenPlain) ''plain text report'' = None"
    by (simp add: JSON_parse_network parseJSON_values)
  from analyzeImage_reads_body [OF c _ _ p2 f2 o _ ne(2)] j2
  have r2: "fst (analyzeImage (network emptyThenPlain) examplePhoto English) = Inr ''plain text report''"
    by (simp add: MAX_RETRIES_def)
  \<comment> \<open>the first attempt answers with an object that has no text\<close>
  have f3: "fetch (network undescribed) 1 ?rq
              = Response \<lparr>status = 200, statusText = ''OK'', bodyText = Inr doneBody\<rparr>"
    by (simp add: fetch_network undescribed_def httpResponse_def)
  have p3: "\<forall>j. 1 \<le> j \<and> j < (1 :: nat) \<longrightarrow> isl (tryAttempt (network undescribed) ?rq j)"
    by simp
  have j3: "JSON_parse (network undescribed) doneBody = Some (JObject [(''status'', JString ''done'')])"
    by (simp add: JSON_parse_network parseJSON_values)
  have s3: "JSON_stringify (network undescribed) (JObject [(''status'', JString ''done'')]) = doneText"
    by (simp add: network_def scripted_def)
  from analyzeImage_reads_body [OF c _ _ p3 f3 o _ ne(3)] j3 s3
  have "snd (analyzeImage (network undescribed) examplePhoto English) = [Fetch ?rq]"
    "fst (analyzeImage (network undescribed) examplePhoto English) =
       Inr (''Could not find analysis text in the response. The service returned:''
             @ [CHR 0x0A, CHR 0x0A] @ doneText)"
    by (simp_all add: MAX_RETRIES_def schedule_first)
  then have r3: "analyzeImage (network undescribed) examplePhoto English =
       (Inr (''Could not find analysis text in the response. The service returned:''
             @ [CHR 0x0A, CHR 0x0A] @ doneText),
        [Fetch ?rq])"
    by (metis prod.collapse)
  from f1 j1 r1 f2 j2 r2 f3 j3 s3 r3 show ?thesis
    by (simp add: request_example httpResponse_def)
qed

section \<open>The translation adapter\<close>

text \<open>
  C8. For the empty text \<open>translateText\<close> returns the empty string and sends nothing to the
  translation service.
\<close>

theorem translateText_empty: "translateText p [] targetLanguage = (Inr [], [])"
  by (simp add: translateText_def)

text \<open>
  C9. For a non-empty text \<open>translateText\<close> never rejects. It returns the text unchanged
  when the client cannot be constructed, when the call is rejected, and when the completion
  is missing or empty; otherwise it returns the completion. At most one request is sent.
\<close>

theorem translateText_degrades:
  assumes "text \<noteq> []"
  shows "(\<exists>s. fst (translateText p text targetLanguage) = Inr s)
         \<and> (\<forall>e. newGoogleGenAI p = Some e \<longrightarrow> translateText p text targetLanguage = (Inr text, []))
         \<and> (newGoogleGenAI p = None \<longrightarrow>
              snd (translateText p text targetLanguage)
                = [\<lparr>model = ''gemini-3-flash-preview'', contents = translationPrompt text targetLanguage\<rparr>]
              \<and> (\<forall>e. generateContent p \<lparr>model = ''gemini-3-flash-preview'',
                                          contents = translationPrompt text targetLanguage\<rparr> = Inl e
                     \<longrightarrow> fst (translateText p text targetLanguage) = Inr text)
              \<and> (generateContent p \<lparr>model = ''gemini-3-flash-preview'',
                                     contents = translationPrompt text targetLanguage\<rparr> = Inr None
                     \<longrightarrow> fst (translateText p text targetLanguage) = Inr text)
              \<and> (generateContent p \<lparr>model = ''gemini-3-flash-preview'',
                                     contents = translationPrompt text targetLanguage\<rparr> = Inr (Some [])
                     \<longrightarrow> fst (translateText p text targetLanguage) = Inr text)
              \<and> (\<forall>t. t \<noteq> [] \<and> generateContent p \<lparr>model = ''gemini-3-flash-preview'',
                                     contents = translationPrompt text targetLanguage\<rparr> = Inr (Some t)
                     \<longrightarrow> fst (translateText p text targetLanguage) = Inr t))"
  using assms
  by (auto simp: translateText_def tryTranslate_def Let_def split: option.splits sum.splits)

theorem translateText_degrades_witness:
  "''Water the **fern** weekly.'' \<noteq> []
   \<and> translateText (scripted (800, 600) failing (\<lambda>v. []) (Some ''An API Key must be set'') (Inr None))
        ''Water the **fern** weekly.'' Hindi = (Inr ''Water the **fern** weekly.'', [])
   \<and> fst (translateText (scripted (800, 600) failing (\<lambda>v. []) None (Inl ''503 Service Unavailable''))
        ''Water the **fern** weekly.'' Hindi) = Inr ''Water the **fern** weekly.''
   \<and> fst (translateText (scripted (800, 600) failing (\<lambda>v. []) None (Inr None))
        ''Water the **fern** weekly.'' Hindi) = Inr ''Water the **fern** weekly.''
   \<and> fst (translateText (scripted (800, 600) failing (\<lambda>v. []) None (Inr (Some [])))
        ''Water the **fern** weekly.'' Hindi) = Inr ''Water the **fern** weekly.''
   \<and> fst (translateText (scripted (800, 600) failing (\<lambda>v. []) None (Inr (Some ''**fern** ko har hafte paani dein.'')))
        ''Water the **fern** weekly.'' Hindi) = Inr ''**fern** ko har hafte paani dein.''
   \<and> length (snd (translateText (scripted (800, 600) failing (\<lambda>v. []) None (Inr (Some ''**fern** ko har hafte paani dein.'')))
        ''Water the **fern** weekly.'' Hindi)) = 1"
proof -
  have ne: "''Water the **fern** weekly.'' \<noteq> []" by simp
  have g: "generateContent (scripted d s str ce co) rq = co"
    and n: "newGoogleGenAI (scripted d s str ce co) = ce" for d s str ce co rq
    by (simp_all add: scripted_def)
  from translateText_degrades [OF ne, of "scripted (800, 600) failing (\<lambda>v. []) (Some ''An API Key must be set'') (Inr None)" Hindi]
  have a: "translateText (scripted (800, 600) failing (\<lambda>v. []) (Some ''An API Key must be set'') (Inr None))
        ''Water the **fern** weekly.'' Hindi = (Inr ''Water the **fern** weekly.'', [])"
    by (simp add: n)
  from translateText_degrades [OF ne, of "scripted (800, 600) failing (\<lambda>v. []) None (Inl ''503 Service Unavailable'')" Hindi]
  have b: "fst (translateText (scripted (800, 600) failing (\<lambda>v. []) None (Inl ''503 Service Unavailable''))
        ''Water the **fern** weekly.'' Hindi) = Inr ''Water the **fern** weekly.''"
    by (simp add: n g)
  from translateText_degrades [OF ne, of "scripted (800, 600) failing (\<lambda>v. []) None (Inr None)" Hindi]
  have c: "fst (translateText (scripted (800, 600) failing (\<lambda>v. []) None (Inr None))
        ''Water the **fern** weekly.'' Hindi) = Inr ''Water the **fern** weekly.''"
    by (simp add: n g)
  from translateText_degrades [OF ne, of "scripted (800, 600) failing (\<lambda>v. []) None (Inr (Some []))" Hindi]
  have d: "fst (translateText (scripted (800, 600) failing (\<lambda>v. []) None (Inr (Some [])))
        ''Water the **fern** weekly.'' Hindi) = Inr ''Water the **fern** weekly.''"
    by (simp add: n g)
  from translateText_degrades [OF ne, of "scripted (800, 600) failing (\<lambda>v. []) None (Inr (Some ''**fern** ko har hafte paani dein.''))" Hindi]
  have e: "fst (translateText (scripted (800, 600) failing (\<lambda>v. []) None (Inr (Some ''**fern** ko har hafte paani dein.'')))
        ''Water the **fern** weekly.'' Hindi) = Inr ''**fern** ko har hafte paani dein.''"
    "length (snd (translateText (scripted (800, 600) failing (\<lambda>v. []) None (Inr (Some ''**fern** ko har hafte paani dein.'')))
        ''Water the **fern** weekly.'' Hindi)) = 1"
    by (simp_all add: n g)
  from ne a b c d e show ?thesis by blast
qed

end
